theory Spec2Isabelle
  imports Main
begin

section \<open>Python values used by \<open>datapunt_api/serializers.py\<close>\<close>

text \<open>
  Exceptions are values. \<open>IndexError\<close>, \<open>KeyError\<close>, \<open>TypeError\<close> and
  \<open>AttributeError\<close> are raised by the Python operations the module itself performs
  (indexing a list, subscripting a dict, item assignment, attribute access).
  \<open>NoReverseMatch\<close> is what URL reversal raises (the specification calls it
  \<open>ResolutionError\<close>), \<open>JSONDecodeError\<close> what \<open>json.loads\<close> raises (the
  specification's \<open>DecodeError\<close>). \<open>MalformedFilterError\<close> is named by the
  specification only: no statement of the module raises it. \<open>OtherError\<close> stands for
  any other exception of a collaborator.
\<close>

datatype exc =
    IndexError
  | KeyError
  | TypeError
  | AttributeError
  | NoReverseMatch
  | JSONDecodeError
  | MalformedFilterError
  | OtherError string

text \<open>
  JSON-compatible Python values, as \<open>json.loads\<close> produces them and as the fields
  return them. A \<open>dict\<close> keeps insertion order, so it is an association list.
  The representation \<open>'f\<close> of Python floats is left open.
\<close>

datatype 'f json =
    JNull
  | JBool bool
  | JInt int
  | JFloat 'f
  | JStr string
  | JArr "'f json list"
  | JObj "(string \<times> 'f json) list"

type_synonym 'f rendered = "(string \<times> 'f json) list"

subsection \<open>\<open>str\<close> and \<open>str.format\<close>\<close>

text \<open>
  A \<open>string\<close> holds the UTF-8 bytes of a Python \<open>str\<close>; concatenation is the
  same on both.
\<close>

text \<open>\<open>str\<close> of a Python \<open>int\<close>: decimal digits, a leading minus sign when negative.\<close>

function str_nat :: "nat \<Rightarrow> string" where
  "str_nat n =
     (if n < 10 then [char_of (48 + n)]
      else str_nat (n div 10) @ [char_of (48 + n mod 10)])"
  by pat_completeness auto
termination
  by (relation "measure id") auto

declare str_nat.simps [simp del]

definition str_int :: "int \<Rightarrow> string" where
  "str_int i = (if i < 0 then CHR ''-'' # str_nat (nat (- i)) else str_nat (nat i))"

text \<open>
  A primary key is a scalar. A replacement field \<open>{}\<close> of \<open>str.format\<close> formats its
  argument with an empty format specification, which is \<open>str\<close> of the argument.
\<close>

datatype pk = PkNone | PkInt int | PkStr string

fun format_pk :: "pk \<Rightarrow> string" where
  "format_pk PkNone = ''None''"
| "format_pk (PkInt i) = str_int i"
| "format_pk (PkStr s) = s"

section \<open>\<open>get_links\<close> and \<open>LinksField\<close>\<close>

text \<open>
  \<open>reverse\<close> (Django REST framework) is a collaborator: it is a parameter that maps the
  view name, the optional \<open>kwargs\<close> and the optional request to a URL or to an
  exception. \<open>None\<close> is Python's \<open>None\<close>, the default of both keyword parameters.
\<close>

definition get_links ::
  "(string \<Rightarrow> 'kw option \<Rightarrow> 'rq option \<Rightarrow> exc + string) \<Rightarrow>
   string \<Rightarrow> 'kw option \<Rightarrow> 'rq option \<Rightarrow> exc + 'f rendered" where
  "get_links reverse view_name kwargs request =
     (case reverse view_name kwargs request of
        Inl e \<Rightarrow> Inl e
      | Inr href \<Rightarrow> Inr [(''self'', JObj [(''href'', JStr href)])])"

text \<open>
  \<open>LinksField.to_representation\<close>: \<open>self.context.get('request')\<close> is \<open>None\<close> when the
  key is missing, and the stored value (itself possibly \<open>None\<close>) otherwise.
  \<open>self.get_url\<close> is inherited from the framework and is a parameter; it returns a
  URL string or \<open>None\<close> (\<open>JNull\<close>), or raises.
\<close>

definition LinksField_to_representation ::
  "('v \<Rightarrow> string \<Rightarrow> 'rq option \<Rightarrow> 'fmt option \<Rightarrow> exc + 'f json) \<Rightarrow>
   string \<Rightarrow> (string \<rightharpoonup> 'rq option) \<Rightarrow> 'v \<Rightarrow> exc + 'f rendered" where
  "LinksField_to_representation get_url view_name context v =
     (let request = (case context ''request'' of None \<Rightarrow> None | Some r \<Rightarrow> r) in
      case get_url v view_name request None of
        Inl e \<Rightarrow> Inl e
      | Inr href \<Rightarrow> Inr [(''self'', JObj [(''href'', href)])])"

section \<open>\<open>RelatedSummaryField\<close>\<close>

text \<open>
  The related manager handed to the field: the outcome of \<open>value.count()\<close>,
  \<open>value.model.__name__\<close>, \<open>value.instance.pk\<close> and \<open>value.core_filters\<close> (a dict,
  in insertion order).
\<close>

record 'v related_manager =
  count :: "exc + int"
  model_name :: string
  instance_pk :: pk
  core_filters :: "(string \<times> 'v) list"

text \<open>
  \<open>model_name.lower()\<close> is the built-in \<open>str.lower\<close>, which folds every cased
  Unicode character; it is the parameter \<open>lower\<close>.
  The statements run in the source's order: \<open>count()\<close>, the route name, the subscript
  \<open>self.context['request']\<close> (a missing key raises \<open>KeyError\<close>), \<open>reverse\<close>, and
  then \<open>list(value.core_filters.keys())[0]\<close>, which raises \<open>IndexError\<close> on an
  empty list of keys.
\<close>

definition RelatedSummaryField_to_representation ::
  "(string \<Rightarrow> string) \<Rightarrow>
   (string \<Rightarrow> 'kw option \<Rightarrow> 'rq option \<Rightarrow> exc + string) \<Rightarrow>
   (string \<rightharpoonup> 'rq option) \<Rightarrow> 'v related_manager \<Rightarrow> exc + 'f rendered" where
  "RelatedSummaryField_to_representation lower reverse context v =
     (case count v of
        Inl e \<Rightarrow> Inl e
      | Inr cnt \<Rightarrow>
          (let mapping = lower (model_name v) @ ''-list'' in
           case context ''request'' of
             None \<Rightarrow> Inl KeyError
           | Some request \<Rightarrow>
               (case reverse mapping None request of
                  Inl e \<Rightarrow> Inl e
                | Inr url \<Rightarrow>
                    (let parent_pk = instance_pk v in
                     case map fst (core_filters v) of
                       [] \<Rightarrow> Inl IndexError
                     | filter_name # _ \<Rightarrow>
                         Inr [(''count'', JInt cnt),
                              (''href'', JStr (url @ ''?'' @ filter_name @ ''='' @
                                               format_pk parent_pk))]))))"

section \<open>\<open>DataSetSerializerMixin\<close>\<close>

text \<open>
  \<open>result['dataset'] = self.dataset\<close> is an item assignment on the object that
  \<open>super().to_representation(obj)\<close> returned, so objects live in a store and are
  named by references. A store cell holds a \<open>dict\<close> or some other object (a model
  instance, say) with its attributes.
\<close>

type_synonym ref = nat

datatype 'f pyobj =
    PyDict "(string \<times> 'f json) list"
  | PyObject "(string \<times> 'f json) list"

type_synonym 'f store = "ref \<Rightarrow> 'f pyobj"

text \<open>
  \<open>dict.__setitem__\<close>: an existing key keeps its position and takes the new value, a
  new key goes to the end.
\<close>

fun dict_setitem :: "(string \<times> 'a) list \<Rightarrow> string \<Rightarrow> 'a \<Rightarrow> (string \<times> 'a) list" where
  "dict_setitem [] k v = [(k, v)]"
| "dict_setitem ((k', v') # rest) k v =
     (if k' = k then (k, v) # rest else (k', v') # dict_setitem rest k v)"

text \<open>
  The base class's \<open>to_representation\<close> is a parameter: it runs on the store and
  returns a reference or raises. \<open>self.dataset\<close> is \<open>None\<close> when the class using the
  mixin defines no such attribute (\<open>AttributeError\<close>); the right-hand side of the
  assignment is evaluated before the item is stored, and storing into an object that
  is not a \<open>dict\<close> raises \<open>TypeError\<close>.
\<close>

definition DataSetSerializerMixin_to_representation ::
  "('o \<Rightarrow> 'f store \<Rightarrow> (exc + ref) \<times> 'f store) \<Rightarrow> 'f json option \<Rightarrow>
   'o \<Rightarrow> 'f store \<Rightarrow> (exc + ref) \<times> 'f store" where
  "DataSetSerializerMixin_to_representation super_to_representation dataset obj s =
     (case super_to_representation obj s of
        (Inl e, s1) \<Rightarrow> (Inl e, s1)
      | (Inr result, s1) \<Rightarrow>
          (case dataset of
             None \<Rightarrow> (Inl AttributeError, s1)
           | Some d \<Rightarrow>
               (case s1 result of
                  PyDict items \<Rightarrow>
                    (Inr result, s1(result := PyDict (dict_setitem items ''dataset'' d)))
                | PyObject _ \<Rightarrow> (Inl TypeError, s1))))"

section \<open>\<open>DisplayField\<close>\<close>

text \<open>
  \<open>__init__\<close> stores two entries into its \<open>kwargs\<close> dict and hands the positional
  arguments and the dict to the base constructor, which is a parameter.
\<close>

definition DisplayField_init ::
  "('a list \<Rightarrow> (string \<rightharpoonup> 'f json) \<Rightarrow> exc + 'fld) \<Rightarrow>
   'a list \<Rightarrow> (string \<rightharpoonup> 'f json) \<Rightarrow> exc + 'fld" where
  "DisplayField_init Field_init args kwargs =
     (let kwargs1 = kwargs(''source'' \<mapsto> JStr ''*'');
          kwargs2 = kwargs1(''read_only'' \<mapsto> JBool True)
      in Field_init args kwargs2)"

text \<open>\<open>str(value)\<close> calls the model's \<open>__str__\<close>, a parameter that may raise.\<close>

definition DisplayField_to_representation ::
  "('m \<Rightarrow> exc + string) \<Rightarrow> 'm \<Rightarrow> exc + string" where
  "DisplayField_to_representation str_of v = str_of v"

section \<open>\<open>MultipleGeometryField\<close>\<close>

text \<open>
  A geometry object, as far as the field looks at it: its truth value under
  \<open>if value:\<close> (Python asks the object's \<open>__bool__\<close> or \<open>__len__\<close>, and a geometry
  with no coordinates or no parts has length zero) and its \<open>geojson\<close> text.
  The model instance has the attribute \<open>geometrie\<close>, \<open>None\<close> or a geometry.
\<close>

record geometry =
  truthy :: bool
  geojson :: string

record model_instance =
  geometrie :: "geometry option"

definition truth_value :: "geometry option \<Rightarrow> bool" where
  "truth_value v = (case v of None \<Rightarrow> False | Some g \<Rightarrow> truthy g)"

definition MultipleGeometryField_get_attribute ::
  "'x model_instance_scheme \<Rightarrow> geometry option" where
  "MultipleGeometryField_get_attribute obj = geometrie obj"

text \<open>\<open>json.loads\<close> is a parameter: the decoded value or an exception.\<close>

definition MultipleGeometryField_to_representation ::
  "(string \<Rightarrow> exc + 'f json) \<Rightarrow> geometry option \<Rightarrow> exc + 'f json" where
  "MultipleGeometryField_to_representation loads v =
     (let res = JStr '''' in
      if truth_value v then
        (case v of
           Some g \<Rightarrow> loads (geojson g)
         | None \<Rightarrow> Inr res)
      else Inr res)"

section \<open>The rules on a store\<close>

text \<open>
  To say what a rule does to the objects it is handed, the other rules are written a
  second time with a store threaded through the calls of their collaborators, which may
  read and write it. The dict a rule builds is returned by value: no caller held it
  before. \<open>json.loads\<close> works on a text and the outcome of \<open>count()\<close> is taken from
  the database, so neither takes the store.
\<close>

definition get_links_st ::
  "(string \<Rightarrow> 'kw option \<Rightarrow> 'rq option \<Rightarrow> 's \<Rightarrow> (exc + string) \<times> 's) \<Rightarrow>
   string \<Rightarrow> 'kw option \<Rightarrow> 'rq option \<Rightarrow> 's \<Rightarrow> (exc + 'f rendered) \<times> 's" where
  "get_links_st reverse view_name kwargs request s =
     (case reverse view_name kwargs request s of
        (Inl e, s1) \<Rightarrow> (Inl e, s1)
      | (Inr href, s1) \<Rightarrow> (Inr [(''self'', JObj [(''href'', JStr href)])], s1))"

definition LinksField_to_representation_st ::
  "('v \<Rightarrow> string \<Rightarrow> 'rq option \<Rightarrow> 'fmt option \<Rightarrow> 's \<Rightarrow> (exc + 'f json) \<times> 's) \<Rightarrow>
   string \<Rightarrow> (string \<rightharpoonup> 'rq option) \<Rightarrow> 'v \<Rightarrow> 's \<Rightarrow> (exc + 'f rendered) \<times> 's" where
  "LinksField_to_representation_st get_url view_name context v s =
     (let request = (case context ''request'' of None \<Rightarrow> None | Some r \<Rightarrow> r) in
      case get_url v view_name request None s of
        (Inl e, s1) \<Rightarrow> (Inl e, s1)
      | (Inr href, s1) \<Rightarrow> (Inr [(''self'', JObj [(''href'', href)])], s1))"

definition RelatedSummaryField_to_representation_st ::
  "(string \<Rightarrow> string) \<Rightarrow>
   (string \<Rightarrow> 'kw option \<Rightarrow> 'rq option \<Rightarrow> 's \<Rightarrow> (exc + string) \<times> 's) \<Rightarrow>
   (string \<rightharpoonup> 'rq option) \<Rightarrow> 'v related_manager \<Rightarrow> 's \<Rightarrow> (exc + 'f rendered) \<times> 's" where
  "RelatedSummaryField_to_representation_st lower reverse context v s =
     (case count v of
        Inl e \<Rightarrow> (Inl e, s)
      | Inr cnt \<Rightarrow>
          (let mapping = lower (model_name v) @ ''-list'' in
           case context ''request'' of
             None \<Rightarrow> (Inl KeyError, s)
           | Some request \<Rightarrow>
               (case reverse mapping None request s of
                  (Inl e, s1) \<Rightarrow> (Inl e, s1)
                | (Inr url, s1) \<Rightarrow>
                    (let parent_pk = instance_pk v in
                     case map fst (core_filters v) of
                       [] \<Rightarrow> (Inl IndexError, s1)
                     | filter_name # _ \<Rightarrow>
                         (Inr [(''count'', JInt cnt),
                               (''href'', JStr (url @ ''?'' @ filter_name @ ''='' @
                                                format_pk parent_pk))], s1)))))"

definition DisplayField_to_representation_st ::
  "('m \<Rightarrow> 's \<Rightarrow> (exc + string) \<times> 's) \<Rightarrow> 'm \<Rightarrow> 's \<Rightarrow> (exc + string) \<times> 's" where
  "DisplayField_to_representation_st str_of v s = str_of v s"

definition MultipleGeometryField_to_representation_st ::
  "(string \<Rightarrow> exc + 'f json) \<Rightarrow> geometry option \<Rightarrow> 's \<Rightarrow> (exc + 'f json) \<times> 's" where
  "MultipleGeometryField_to_representation_st loads v s =
     (let res = JStr '''' in
      if truth_value v then
        (case v of
           Some g \<Rightarrow> (loads (geojson g), s)
         | None \<Rightarrow> (Inr res, s))
      else (Inr res, s))"

section \<open>The read-only contract of the framework\<close>

text \<open>
  Modelled from the spec: the base class of the fields and the deserialization of the
  serializers, which belong to the host framework and are not under \<open>src/\<close>. The
  specification says of a read-only field that it ``never participates in
  input/deserialization'' and that write attempts are ``rejected or ignored by the
  field's read-only contract''. A field keeps the \<open>source\<close> and the \<open>read_only\<close> flag
  its constructor was given (a flag that was not given is off).
\<close>

record 'f field =
  field_source :: "'f json option"
  field_read_only :: bool

definition Field_base_init :: "'a list \<Rightarrow> (string \<rightharpoonup> 'f json) \<Rightarrow> exc + 'f field" where
  "Field_base_init args kwargs =
     Inr \<lparr>field_source = kwargs ''source'',
          field_read_only = (kwargs ''read_only'' = Some (JBool True))\<rparr>"

text \<open>
  Modelled from the spec: deserialization by the host framework, not under \<open>src/\<close>.
  It goes through the named fields of a serializer; a read-only field does not
  participate, any other field takes the value the input supplies under its name.
\<close>

fun deserialize ::
  "(string \<times> 'f field) list \<Rightarrow> (string \<times> 'f json) list \<Rightarrow> (string \<times> 'f json) list" where
  "deserialize [] data = []"
| "deserialize ((name, f) # rest) data =
     (if field_read_only f then deserialize rest data
      else (case map_of data name of
              None \<Rightarrow> deserialize rest data
            | Some v \<Rightarrow> (name, v) # deserialize rest data))"

section \<open>Concrete inputs\<close>

text \<open>
  Collaborators and inputs on which the statements below are evaluated: a URL resolver
  that knows two routes, a context holding a request, and related managers.
\<close>

text \<open>
  \<open>str.lower\<close> on the model names used below: it folds the ASCII capitals, and the
  capital E with acute accent (the UTF-8 bytes C3 89) to the small one (C3 A9).
\<close>

definition ascii_lower_char :: "char \<Rightarrow> char" where
  "ascii_lower_char c =
     (let n = (of_char c :: nat) in if 65 \<le> n \<and> n \<le> 90 then char_of (n + 32) else c)"

fun example_lower :: "string \<Rightarrow> string" where
  "example_lower [] = []"
| "example_lower [c] = [ascii_lower_char c]"
| "example_lower (c # d # cs) =
     (if c = CHR 0xC3 \<and> d = CHR 0x89 then c # CHR 0xA9 # example_lower cs
      else ascii_lower_char c # example_lower (d # cs))"

declare example_lower.simps [simp del]

definition example_reverse :: "string \<Rightarrow> (string \<times> int) list option \<Rightarrow> unit option \<Rightarrow> exc + string" where
  "example_reverse name kwargs request =
     (if name = ''child-list'' \<and> kwargs = None then Inr ''/children/''
      else if name = ''parent-detail'' \<and> kwargs = Some [(''pk'', 5)] then Inr ''/parents/5/''
      else Inl NoReverseMatch)"

definition example_get_url :: "nat \<Rightarrow> string \<Rightarrow> unit option \<Rightarrow> unit option \<Rightarrow> exc + unit json" where
  "example_get_url v view_name request format =
     (if view_name = ''parent-detail'' then Inr (JStr (''/parents/'' @ str_nat v @ ''/''))
      else Inl NoReverseMatch)"

definition example_context :: "string \<rightharpoonup> unit option" where
  "example_context = [''request'' \<mapsto> Some ()]"

definition children_of_42 :: "unit related_manager" where
  "children_of_42 =
     \<lparr>count = Inr 0, model_name = ''Child'', instance_pk = PkInt 42,
      core_filters = [(''parent_id'', ())]\<rparr>"

definition no_filter_manager :: "unit related_manager" where
  "no_filter_manager =
     \<lparr>count = Inr 3, model_name = ''Child'', instance_pk = PkInt 42, core_filters = []\<rparr>"

text \<open>
  A store with a model instance at address 0, and a base \<open>to_representation\<close> that
  renders the instance at \<open>obj\<close> into a dict at the next address.
\<close>

definition example_store :: "unit store" where
  "example_store = (\<lambda>_. PyObject [])(0 := PyObject [(''id'', JInt 5)])"

definition example_super :: "ref \<Rightarrow> unit store \<Rightarrow> (exc + ref) \<times> unit store" where
  "example_super obj s =
     (case s obj of
        PyObject attrs \<Rightarrow> (Inr (Suc obj), s(Suc obj := PyDict attrs))
      | PyDict _ \<Rightarrow> (Inl TypeError, s))"


text \<open>
  A base constructor that keeps the \<open>source\<close> and \<open>read_only\<close> keyword arguments and
  refuses \<open>write_only=True\<close>.
\<close>

definition example_Field_init ::
  "unit list \<Rightarrow> (string \<rightharpoonup> unit json) \<Rightarrow> exc + (unit json option \<times> unit json option)" where
  "example_Field_init args kwargs =
     (if kwargs ''write_only'' = Some (JBool True) then Inl (OtherError ''AssertionError'')
      else Inr (kwargs ''source'', kwargs ''read_only''))"

definition caller_kwargs :: "string \<rightharpoonup> unit json" where
  "caller_kwargs =
     [''source'' \<mapsto> JStr ''name'', ''read_only'' \<mapsto> JBool False, ''label'' \<mapsto> JStr ''Display'']"

definition example_str :: "nat \<Rightarrow> exc + string" where
  "example_str n = Inr (''Widget #'' @ str_nat n)"

text \<open>Two geometries and \<open>json.loads\<close> on their texts.\<close>

definition point_geometry :: geometry where
  \<open>point_geometry =
     \<lparr>truthy = True, geojson = ''{ "type": "Point", "coordinates": [ 4, 52 ] }''\<rparr>\<close>

definition empty_multipolygon :: geometry where
  \<open>empty_multipolygon =
     \<lparr>truthy = False, geojson = ''{ "type": "MultiPolygon", "coordinates": [ ] }''\<rparr>\<close>

definition example_loads :: "string \<Rightarrow> exc + unit json" where
  \<open>example_loads text =
     (if text = ''{ "type": "Point", "coordinates": [ 4, 52 ] }''
      then Inr (JObj [(''type'', JStr ''Point''), (''coordinates'', JArr [JInt 4, JInt 52])])
      else if text = ''{ "type": "MultiPolygon", "coordinates": [ ] }''
      then Inr (JObj [(''type'', JStr ''MultiPolygon''), (''coordinates'', JArr [])])
      else Inl JSONDecodeError)\<close>

definition failing_loads :: "string \<Rightarrow> exc + unit json" where
  "failing_loads text = Inl JSONDecodeError"

definition failing_manager :: "unit related_manager" where
  "failing_manager =
     \<lparr>count = Inr 2, model_name = ''Orphan'', instance_pk = PkInt 7,
      core_filters = [(''parent_id'', ())]\<rparr>"



text \<open>
  A model whose name is not ASCII (\<open>Ecole\<close> with an acute accent on the capital), and
  a resolver that knows the list route of its lower-cased name only.
\<close>

definition ecole_manager :: "unit related_manager" where
  "ecole_manager =
     \<lparr>count = Inr 1, model_name = [CHR 0xC3, CHR 0x89] @ ''cole'', instance_pk = PkStr ''x7'',
      core_filters = [(''school'', ())]\<rparr>"

definition ecole_reverse :: "string \<Rightarrow> unit option \<Rightarrow> unit option \<Rightarrow> exc + string" where
  "ecole_reverse name kwargs request =
     (if name = [CHR 0xC3, CHR 0xA9] @ ''cole-list'' then Inr ''/ecoles/''
      else Inl NoReverseMatch)"






text \<open>
  A serializer with a writable field \<open>name\<close> and the display field, as the constructor
  builds it from \<open>caller_kwargs\<close>, and an input that supplies a value for both.
\<close>

definition name_field :: "unit field" where
  "name_field = \<lparr>field_source = None, field_read_only = False\<rparr>"

definition display_field :: "unit field" where
  "display_field = \<lparr>field_source = Some (JStr ''*''), field_read_only = True\<rparr>"

definition example_fields :: "(string \<times> unit field) list" where
  "example_fields = [(''name'', name_field), (''_display'', display_field)]"

definition example_input :: "(string \<times> unit json) list" where
  "example_input = [(''name'', JStr ''Widget''), (''_display'', JStr ''forged'')]"

section \<open>Facts about the helper functions\<close>

lemma map_of_dict_setitem: "map_of (dict_setitem items k v) = (map_of items)(k \<mapsto> v)"
  by (induction items k v rule: dict_setitem.induct) auto

lemma keys_dict_setitem:
  "map fst (dict_setitem items k v) =
     (if k \<in> set (map fst items) then map fst items else map fst items @ [k])"
  by (induction items k v rule: dict_setitem.induct) auto

lemma dict_setitem_twice: "dict_setitem (dict_setitem items k v) k w = dict_setitem items k w"
  by (induction items k v rule: dict_setitem.induct) auto

lemma str_nat_42: "str_nat 42 = ''42''"
  by code_simp

lemma example_lower_Child: "example_lower ''Child'' = ''child''"
  by code_simp

lemma example_lower_Orphan: "example_lower ''Orphan'' = ''orphan''"
  by code_simp


lemma deserialize_names:
  "(n, v) \<in> set (deserialize flds data) \<Longrightarrow> \<exists>f. (n, f) \<in> set flds \<and> \<not> field_read_only f"
  by (induction flds data rule: deserialize.induct) (auto split: if_splits option.splits)

lemma deserialize_cong:
  assumes "\<forall>m f. (m, f) \<in> set flds \<longrightarrow> \<not> field_read_only f \<longrightarrow> map_of d1 m = map_of d2 m"
  shows "deserialize flds d1 = deserialize flds d2"
  using assms
proof (induction flds)
  case Nil
  show ?case by simp
next
  case (Cons p flds)
  obtain m f where p: "p = (m, f)"
    by (cases p)
  from Cons.prems
  have rest: "\<forall>m f. (m, f) \<in> set flds \<longrightarrow> \<not> field_read_only f \<longrightarrow> map_of d1 m = map_of d2 m"
    by simp
  from Cons.prems p have here: "\<not> field_read_only f \<Longrightarrow> map_of d1 m = map_of d2 m"
    by simp
  have ih: "deserialize flds d1 = deserialize flds d2"
    by (rule Cons.IH [OF rest])
  show ?case
  proof (cases "field_read_only f")
    case True
    then show ?thesis by (simp add: p ih)
  next
    case False
    with here have "map_of d1 m = map_of d2 m" .
    with False show ?thesis by (simp add: p ih split: option.splits)
  qed
qed

lemma deserialize_setitem_other:
  assumes "\<forall>g. (n, g) \<in> set flds \<longrightarrow> field_read_only g"
  shows "deserialize flds (dict_setitem data n w) = deserialize flds data"
proof (rule deserialize_cong, intro allI impI)
  fix m f
  assume "(m, f) \<in> set flds" and "\<not> field_read_only f"
  with assms have "m \<noteq> n"
    by blast
  then show "map_of (dict_setitem data n w) m = map_of data m"
    by (simp add: map_of_dict_setitem)
qed

text \<open>
  With collaborators that leave the store alone, the rules on a store give the results
  of the rules above.
\<close>

lemma get_links_st_agrees:
  "get_links_st (\<lambda>n k r s. (reverse n k r, s)) view_name kwargs request s =
     (get_links reverse view_name kwargs request, s)"
  by (simp add: get_links_st_def get_links_def split: sum.splits)

lemma LinksField_to_representation_st_agrees:
  "LinksField_to_representation_st (\<lambda>v n r f s. (get_url v n r f, s)) view_name ctx v s =
     (LinksField_to_representation get_url view_name ctx v, s)"
  by (simp add: LinksField_to_representation_st_def LinksField_to_representation_def
      split: sum.splits)

lemma RelatedSummaryField_to_representation_st_agrees:
  "RelatedSummaryField_to_representation_st lower (\<lambda>n k r s. (reverse n k r, s)) ctx m s =
     (RelatedSummaryField_to_representation lower reverse ctx m, s)"
  by (simp add: RelatedSummaryField_to_representation_st_def
      RelatedSummaryField_to_representation_def split: sum.splits option.splits list.splits)

lemma DisplayField_to_representation_st_agrees:
  "DisplayField_to_representation_st (\<lambda>v s. (str_of v, s)) v s =
     (DisplayField_to_representation str_of v, s)"
  by (simp add: DisplayField_to_representation_st_def DisplayField_to_representation_def)

lemma MultipleGeometryField_to_representation_st_agrees:
  "MultipleGeometryField_to_representation_st loads v s =
     (MultipleGeometryField_to_representation loads v, s)"
  by (simp add: MultipleGeometryField_to_representation_st_def
      MultipleGeometryField_to_representation_def Let_def split: option.splits)

section \<open>The claims\<close>

subsection \<open>C1: a related manager without filter keys\<close>

text \<open>
  Counterexample to claim C1 as stated (zero filter keys make
  \<open>RelatedSummaryField.to_representation\<close> fail with \<open>MalformedFilterError\<close> and not
  with an index-out-of-range error): for a manager whose \<open>core_filters\<close> is empty, with
  \<open>count()\<close>, the context and URL reversal all succeeding, the field raises
  \<open>IndexError\<close>, which is not \<open>MalformedFilterError\<close>.
\<close>

theorem related_summary_no_filter_key_counterexample:
  "core_filters no_filter_manager = [] \<and>
   (RelatedSummaryField_to_representation example_lower example_reverse example_context no_filter_manager
      :: exc + unit rendered) = Inl IndexError \<and>
   (RelatedSummaryField_to_representation example_lower example_reverse example_context no_filter_manager
      :: exc + unit rendered) \<noteq> Inl MalformedFilterError"
  by (simp add: RelatedSummaryField_to_representation_def no_filter_manager_def
      example_context_def example_reverse_def example_lower_Child)

text \<open>
  Claim C1, amended: for every related manager whose filter mapping has zero keys,
  \<open>RelatedSummaryField.to_representation\<close> never returns a result (so no key is picked
  by default); when \<open>count()\<close>, the lookup of the request in the context and URL
  reversal succeed, it fails with \<open>IndexError\<close>, raised by indexing the empty list of
  keys.
\<close>

theorem related_summary_no_filter_key:
  assumes "core_filters v = []"
  shows "(\<forall>r. RelatedSummaryField_to_representation lower reverse ctx v \<noteq> Inr r) \<and>
         (count v = Inr c \<and> ctx ''request'' = Some request \<and>
          reverse (lower (model_name v) @ ''-list'') None request = Inr url \<longrightarrow>
            RelatedSummaryField_to_representation lower reverse ctx v = Inl IndexError)"
  using assms
  by (simp add: RelatedSummaryField_to_representation_def split: sum.splits option.splits)

text \<open>The amended claim at a manager with three related rows and no filter key.\<close>

theorem related_summary_no_filter_key_witness:
  "core_filters no_filter_manager = [] \<and>
   count no_filter_manager = Inr 3 \<and>
   example_context ''request'' = Some (Some ()) \<and>
   example_reverse (example_lower (model_name no_filter_manager) @ ''-list'') None (Some ()) = Inr ''/children/'' \<and>
   (\<forall>r :: unit rendered.
      RelatedSummaryField_to_representation example_lower example_reverse example_context no_filter_manager \<noteq> Inr r) \<and>
   (RelatedSummaryField_to_representation example_lower example_reverse example_context no_filter_manager
      :: exc + unit rendered) = Inl IndexError"
proof -
  have a: "core_filters no_filter_manager = []"
    and b: "count no_filter_manager = Inr 3"
    and m: "model_name no_filter_manager = ''Child''"
    by (simp_all add: no_filter_manager_def)
  have c: "example_context ''request'' = Some (Some ())"
    by (simp add: example_context_def)
  have d: "example_reverse (example_lower (model_name no_filter_manager) @ ''-list'') None (Some ())
             = Inr ''/children/''"
    by (simp add: m example_lower_Child example_reverse_def)
  from related_summary_no_filter_key
      [where v = no_filter_manager and lower = example_lower and reverse = example_reverse
        and ctx = example_context and c = 3 and request = "Some ()" and url = "''/children/''",
        OF a]
    a b c d
  show ?thesis by simp
qed

subsection \<open>C2: the self-link envelope\<close>

text \<open>
  Claim C2: whenever URL resolution succeeds with a URL \<open>u\<close>, \<open>get_links\<close> and
  \<open>LinksField.to_representation\<close> return the mapping with the single key \<open>self\<close>,
  bound to the mapping with the single key \<open>href\<close>, bound to \<open>u\<close>; there is no other
  key at either level.
\<close>

theorem self_link_envelope:
  "(reverse view_name kwargs request = Inr u \<longrightarrow>
      get_links reverse view_name kwargs request = Inr [(''self'', JObj [(''href'', JStr u)])]) \<and>
   (get_url v view_name' (case ctx ''request'' of None \<Rightarrow> None | Some r \<Rightarrow> r) None = Inr (JStr u') \<longrightarrow>
      LinksField_to_representation get_url view_name' ctx v =
        Inr [(''self'', JObj [(''href'', JStr u')])])"
  by (simp add: get_links_def LinksField_to_representation_def)

text \<open>The detail route of parent 5, through both functions.\<close>

theorem self_link_envelope_witness:
  "example_reverse ''parent-detail'' (Some [(''pk'', 5)]) None = Inr ''/parents/5/'' \<and>
   (get_links example_reverse ''parent-detail'' (Some [(''pk'', 5)]) None :: exc + unit rendered) =
      Inr [(''self'', JObj [(''href'', JStr ''/parents/5/'')])] \<and>
   example_get_url 5 ''parent-detail'' (Some ()) None = Inr (JStr ''/parents/5/'') \<and>
   LinksField_to_representation example_get_url ''parent-detail'' example_context 5 =
      Inr [(''self'', JObj [(''href'', JStr ''/parents/5/'')])]"
proof -
  have r: "example_reverse ''parent-detail'' (Some [(''pk'', 5)]) None = Inr ''/parents/5/''"
    by (simp add: example_reverse_def)
  have five: "str_nat 5 = ''5''"
    by code_simp
  have g: "example_get_url 5 ''parent-detail''
             (case example_context ''request'' of None \<Rightarrow> None | Some r \<Rightarrow> r) None
           = Inr (JStr ''/parents/5/'')"
    by (simp add: example_get_url_def five)
  have c: "(case example_context ''request'' of None \<Rightarrow> None | Some r \<Rightarrow> r) = Some ()"
    by (simp add: example_context_def)
  from self_link_envelope [of example_reverse "''parent-detail''" "Some [(''pk'', 5)]" None
      "''/parents/5/''" example_get_url 5 "''parent-detail''" example_context "''/parents/5/''"]
    r g c
  show ?thesis by simp
qed

subsection \<open>C3: the dataset tag\<close>

text \<open>
  Counterexample to claim C3 as stated (Rule B does not mutate its input in place but
  returns a merged copy): the base serializer renders the instance at address 0 into a
  dict at address 1; \<open>DataSetSerializerMixin.to_representation\<close> returns that very
  reference, and the dict stored there has changed.
\<close>

theorem dataset_tag_counterexample:
  "example_super 0 example_store = (Inr 1, example_store(1 := PyDict [(''id'', JInt 5)])) \<and>
   fst (DataSetSerializerMixin_to_representation example_super (Some (JStr ''bag'')) 0 example_store)
     = Inr 1 \<and>
   snd (DataSetSerializerMixin_to_representation example_super (Some (JStr ''bag'')) 0 example_store) 1
     = PyDict [(''id'', JInt 5), (''dataset'', JStr ''bag'')] \<and>
   snd (DataSetSerializerMixin_to_representation example_super (Some (JStr ''bag'')) 0 example_store) 1
     \<noteq> snd (example_super 0 example_store) 1"
  by (simp add: DataSetSerializerMixin_to_representation_def example_super_def example_store_def)

text \<open>
  Claim C3, amended: for every dict \<open>r\<close> returned by the base serializer and every
  dataset name \<open>d\<close>, \<open>DataSetSerializerMixin.to_representation\<close> yields \<open>r\<close> with
  the key \<open>dataset\<close> bound to \<open>d\<close>: the mapping is that of \<open>r\<close> updated at
  \<open>dataset\<close>, the keys are those of \<open>r\<close> plus \<open>dataset\<close> (once, at the end, when
  \<open>r\<close> did not have it). Applying the rule with \<open>d1\<close> and then with \<open>d2\<close> is
  the same as applying it with \<open>d2\<close> alone (the last write wins, nothing accumulates).
  The key is written into the object the base serializer returned, in place, and that
  same object is returned: no copy is made.
\<close>

theorem dataset_tag_in_place:
  assumes "super_to_representation obj s = (Inr r, s1)"
    and "s1 r = PyDict items"
  shows "DataSetSerializerMixin_to_representation super_to_representation (Some (JStr d)) obj s =
           (Inr r, s1(r := PyDict (dict_setitem items ''dataset'' (JStr d)))) \<and>
         map_of (dict_setitem items ''dataset'' (JStr d)) = (map_of items)(''dataset'' \<mapsto> JStr d) \<and>
         map fst (dict_setitem items ''dataset'' (JStr d)) =
           (if ''dataset'' \<in> set (map fst items) then map fst items
            else map fst items @ [''dataset'']) \<and>
         DataSetSerializerMixin_to_representation
             (DataSetSerializerMixin_to_representation super_to_representation (Some (JStr d1)))
             (Some (JStr d2)) obj s =
           (Inr r, s1(r := PyDict (dict_setitem items ''dataset'' (JStr d2))))"
proof -
  have once: "DataSetSerializerMixin_to_representation super_to_representation (Some x) obj s =
                (Inr r, s1(r := PyDict (dict_setitem items ''dataset'' x)))" for x
    using assms by (simp add: DataSetSerializerMixin_to_representation_def)
  have twice: "DataSetSerializerMixin_to_representation
                 (DataSetSerializerMixin_to_representation super_to_representation (Some (JStr d1)))
                 (Some (JStr d2)) obj s =
               (Inr r, s1(r := PyDict (dict_setitem items ''dataset'' (JStr d2))))"
    unfolding DataSetSerializerMixin_to_representation_def [of "DataSetSerializerMixin_to_representation _ _"]
    by (simp add: once dict_setitem_twice)
  show ?thesis
    using once [of "JStr d"] twice
    by (simp only: map_of_dict_setitem keys_dict_setitem simp_thms)
qed

text \<open>The amended claim on the instance \<open>{id: 5}\<close>, tagged \<open>bag\<close> and then \<open>brk\<close>.\<close>

theorem dataset_tag_in_place_witness:
  "example_super 0 example_store = (Inr 1, example_store(1 := PyDict [(''id'', JInt 5)])) \<and>
   fst (DataSetSerializerMixin_to_representation example_super (Some (JStr ''bag'')) 0 example_store)
     = Inr 1 \<and>
   snd (DataSetSerializerMixin_to_representation example_super (Some (JStr ''bag'')) 0 example_store) 1
     = PyDict [(''id'', JInt 5), (''dataset'', JStr ''bag'')] \<and>
   snd (DataSetSerializerMixin_to_representation
          (DataSetSerializerMixin_to_representation example_super (Some (JStr ''bag'')))
          (Some (JStr ''brk'')) 0 example_store) 1
     = PyDict [(''id'', JInt 5), (''dataset'', JStr ''brk'')]"
proof -
  have a: "example_super 0 example_store = (Inr 1, example_store(1 := PyDict [(''id'', JInt 5)]))"
    by (simp add: example_super_def example_store_def)
  have b: "(example_store(1 := PyDict [(''id'', JInt 5)])) 1 = PyDict [(''id'', JInt 5)]"
    by simp
  from dataset_tag_in_place
      [where super_to_representation = example_super and obj = 0 and s = example_store
        and r = 1 and ?s1.0 = "example_store(1 := PyDict [(''id'', JInt 5)])"
        and items = "[(''id'', JInt 5)]" and d = "''bag''" and ?d1.0 = "''bag''"
        and ?d2.0 = "''brk''", OF a b] a
  show ?thesis by simp
qed

subsection \<open>C4: the related-collection summary\<close>

text \<open>
  Claim C4: for every related manager with exactly one filter key \<open>k\<close> and owning
  primary key \<open>p\<close>, \<open>RelatedSummaryField.to_representation\<close> returns the mapping of
  \<open>count\<close> to the manager's count and of \<open>href\<close> to the URL of the route
  \<open>lowercase(model name) + "-list"\<close>, followed by \<open>?\<close>, \<open>k\<close>, \<open>=\<close> and \<open>p\<close>.
\<close>

theorem related_summary_single_filter:
  assumes "core_filters v = [(k, x)]"
    and "count v = Inr c"
    and "ctx ''request'' = Some request"
    and "reverse (lower (model_name v) @ ''-list'') None request = Inr url"
  shows "RelatedSummaryField_to_representation lower reverse ctx v =
           Inr [(''count'', JInt c),
                (''href'', JStr (url @ ''?'' @ k @ ''='' @ format_pk (instance_pk v)))]"
  using assms by (simp add: RelatedSummaryField_to_representation_def)

text \<open>
  The filter key \<open>parent_id\<close>, the primary key 42 and a count of zero: the href ends
  with \<open>?parent_id=42\<close> and the count 0 is an ordinary result. Then a model whose
  name is not ASCII: the route asked for is the one of the lower-cased name.
\<close>

theorem related_summary_single_filter_witness:
  "core_filters children_of_42 = [(''parent_id'', ())] \<and>
   count children_of_42 = Inr 0 \<and>
   instance_pk children_of_42 = PkInt 42 \<and>
   example_context ''request'' = Some (Some ()) \<and>
   example_reverse (example_lower (model_name children_of_42) @ ''-list'') None (Some ())
     = Inr ''/children/'' \<and>
   (RelatedSummaryField_to_representation example_lower example_reverse example_context
      children_of_42 :: exc + unit rendered) =
     Inr [(''count'', JInt 0), (''href'', JStr ''/children/?parent_id=42'')] \<and>
   core_filters ecole_manager = [(''school'', ())] \<and>
   count ecole_manager = Inr 1 \<and>
   ecole_reverse (example_lower (model_name ecole_manager) @ ''-list'') None (Some ())
     = Inr ''/ecoles/'' \<and>
   (RelatedSummaryField_to_representation example_lower ecole_reverse example_context
      ecole_manager :: exc + unit rendered) =
     Inr [(''count'', JInt 1), (''href'', JStr ''/ecoles/?school=x7'')]"
proof -
  have a: "core_filters children_of_42 = [(''parent_id'', ())]"
    and b: "count children_of_42 = Inr 0"
    and p: "instance_pk children_of_42 = PkInt 42"
    and m: "model_name children_of_42 = ''Child''"
    by (simp_all add: children_of_42_def)
  have c: "example_context ''request'' = Some (Some ())"
    by (simp add: example_context_def)
  have d: "example_reverse (example_lower (model_name children_of_42) @ ''-list'') None (Some ())
             = Inr ''/children/''"
    by (simp add: m example_lower_Child example_reverse_def)
  have f: "format_pk (PkInt 42) = ''42''"
    by (simp add: str_int_def str_nat_42)
  have a': "core_filters ecole_manager = [(''school'', ())]"
    and b': "count ecole_manager = Inr 1"
    and p': "instance_pk ecole_manager = PkStr ''x7''"
    by (simp_all add: ecole_manager_def)
  have d': "ecole_reverse (example_lower (model_name ecole_manager) @ ''-list'') None (Some ())
              = Inr ''/ecoles/''"
    by (simp add: ecole_manager_def ecole_reverse_def example_lower.simps ascii_lower_char_def)
  from related_summary_single_filter
      [where v = children_of_42 and lower = example_lower and reverse = example_reverse
        and ctx = example_context, OF a b c d]
    related_summary_single_filter
      [where v = ecole_manager and lower = example_lower and reverse = ecole_reverse
        and ctx = example_context, OF a' b' c d']
    a b p c d f a' b' p' d'
  show ?thesis by simp
qed

subsection \<open>C5: the geometry field\<close>

text \<open>
  Counterexample to claim C5 as stated (a geometry that is present and valid is returned
  as its decoded GeoJSON): an empty multipolygon is present, its GeoJSON text decodes to
  a mapping with the keys \<open>type\<close> and \<open>coordinates\<close>, yet the field returns the
  empty string, because the object is falsy.
\<close>

theorem geometry_passthrough_counterexample:
  "geometrie \<lparr>geometrie = Some empty_multipolygon\<rparr> = Some empty_multipolygon \<and>
   example_loads (geojson empty_multipolygon) =
     Inr (JObj [(''type'', JStr ''MultiPolygon''), (''coordinates'', JArr [])]) \<and>
   MultipleGeometryField_to_representation example_loads
       (MultipleGeometryField_get_attribute \<lparr>geometrie = Some empty_multipolygon\<rparr>)
     = Inr (JStr '''') \<and>
   MultipleGeometryField_to_representation example_loads
       (MultipleGeometryField_get_attribute \<lparr>geometrie = Some empty_multipolygon\<rparr>)
     \<noteq> example_loads (geojson empty_multipolygon)"
  by (simp add: MultipleGeometryField_to_representation_def MultipleGeometryField_get_attribute_def
      truth_value_def empty_multipolygon_def example_loads_def)

text \<open>
  Claim C5, amended: \<open>MultipleGeometryField\<close> returns the empty string when the
  record's geometry is \<open>None\<close>, and also when it is a geometry object that is falsy;
  when the geometry is truthy and its GeoJSON text decodes, the field returns the decoded
  structure.
\<close>

theorem geometry_passthrough:
  "(geometrie obj = None \<longrightarrow>
      MultipleGeometryField_to_representation loads (MultipleGeometryField_get_attribute obj)
        = Inr (JStr '''')) \<and>
   (geometrie obj' = Some g \<and> truthy g \<and> loads' (geojson g) = Inr j \<longrightarrow>
      MultipleGeometryField_to_representation loads' (MultipleGeometryField_get_attribute obj')
        = Inr j) \<and>
   (geometrie obj'' = Some g' \<and> \<not> truthy g' \<longrightarrow>
      MultipleGeometryField_to_representation loads'' (MultipleGeometryField_get_attribute obj'')
        = Inr (JStr ''''))"
  by (simp add: MultipleGeometryField_to_representation_def MultipleGeometryField_get_attribute_def
      truth_value_def)

text \<open>
  A record without geometry, a record with a point (decoded to a mapping with the keys
  \<open>type\<close> and \<open>coordinates\<close>) and a record with an empty multipolygon.
\<close>

theorem geometry_passthrough_witness:
  "geometrie \<lparr>geometrie = None\<rparr> = None \<and>
   MultipleGeometryField_to_representation example_loads
       (MultipleGeometryField_get_attribute \<lparr>geometrie = None\<rparr>) = Inr (JStr '''') \<and>
   geometrie \<lparr>geometrie = Some point_geometry\<rparr> = Some point_geometry \<and>
   truthy point_geometry \<and>
   example_loads (geojson point_geometry) =
     Inr (JObj [(''type'', JStr ''Point''), (''coordinates'', JArr [JInt 4, JInt 52])]) \<and>
   MultipleGeometryField_to_representation example_loads
       (MultipleGeometryField_get_attribute \<lparr>geometrie = Some point_geometry\<rparr>)
     = Inr (JObj [(''type'', JStr ''Point''), (''coordinates'', JArr [JInt 4, JInt 52])]) \<and>
   geometrie \<lparr>geometrie = Some empty_multipolygon\<rparr> = Some empty_multipolygon \<and>
   \<not> truthy empty_multipolygon \<and>
   MultipleGeometryField_to_representation example_loads
       (MultipleGeometryField_get_attribute \<lparr>geometrie = Some empty_multipolygon\<rparr>)
     = Inr (JStr '''')"
proof -
  have t: "truthy point_geometry"
    by (simp add: point_geometry_def)
  have l: "example_loads (geojson point_geometry) =
             Inr (JObj [(''type'', JStr ''Point''), (''coordinates'', JArr [JInt 4, JInt 52])])"
    by (simp add: point_geometry_def example_loads_def)
  have f: "\<not> truthy empty_multipolygon"
    by (simp add: empty_multipolygon_def)
  from geometry_passthrough
      [where obj = "\<lparr>geometrie = None\<rparr>" and loads = example_loads
        and obj' = "\<lparr>geometrie = Some point_geometry\<rparr>" and g = point_geometry
        and loads' = example_loads
        and j = "JObj [(''type'', JStr ''Point''), (''coordinates'', JArr [JInt 4, JInt 52])]"
        and obj'' = "\<lparr>geometrie = Some empty_multipolygon\<rparr>" and g' = empty_multipolygon
        and loads'' = example_loads]
    t l f
  show ?thesis by simp
qed

subsection \<open>C6: the display field\<close>

text \<open>
  Claim C6: for every record, \<open>DisplayField.to_representation\<close> returns exactly what
  the record's string conversion returns, and the field is read-only: whatever keyword
  arguments the caller passes, the constructed field has \<open>source = '*'\<close> and
  \<open>read_only = True\<close>, so in a serializer that has it under the name \<open>n\<close> it does
  not participate in deserialization (no value is taken for \<open>n\<close>) and a write attempt
  is ignored (whatever the input supplies under \<open>n\<close>, the outcome is the same).
\<close>

theorem display_field_read_only:
  assumes "DisplayField_init Field_base_init args kwargs = Inr f"
    and "\<forall>g. (n, g) \<in> set flds \<longrightarrow> g = f"
  shows "DisplayField_to_representation str_of v = str_of v \<and>
         field_source f = Some (JStr ''*'') \<and>
         field_read_only f \<and>
         n \<notin> fst ` set (deserialize flds data) \<and>
         deserialize flds (dict_setitem data n w) = deserialize flds data"
proof -
  from assms(1) have src: "field_source f = Some (JStr ''*'')" and ro: "field_read_only f"
    by (auto simp add: DisplayField_init_def Field_base_init_def)
  from assms(2) ro have named: "\<forall>g. (n, g) \<in> set flds \<longrightarrow> field_read_only g"
    by blast
  have out: "n \<notin> fst ` set (deserialize flds data)"
  proof
    assume "n \<in> fst ` set (deserialize flds data)"
    then obtain x where "(n, x) \<in> set (deserialize flds data)"
      by auto
    from deserialize_names [OF this] named show False
      by blast
  qed
  from deserialize_setitem_other [OF named]
  have same: "deserialize flds (dict_setitem data n w) = deserialize flds data" .
  show ?thesis
    using src ro out same by (simp add: DisplayField_to_representation_def)
qed

text \<open>
  A caller passing \<open>read_only=False\<close>, a record whose string conversion is
  \<open>Widget #7\<close>, and an input that supplies a value for the display field twice over.
\<close>

theorem display_field_read_only_witness:
  "caller_kwargs ''read_only'' = Some (JBool False) \<and>
   DisplayField_init Field_base_init [] caller_kwargs = Inr display_field \<and>
   example_str 7 = Inr ''Widget #7'' \<and>
   DisplayField_to_representation example_str 7 = Inr ''Widget #7'' \<and>
   field_read_only display_field \<and>
   deserialize example_fields example_input = [(''name'', JStr ''Widget'')] \<and>
   ''_display'' \<notin> fst ` set (deserialize example_fields example_input) \<and>
   deserialize example_fields (dict_setitem example_input ''_display'' (JStr ''again''))
     = [(''name'', JStr ''Widget'')]"
proof -
  have built: "DisplayField_init Field_base_init [] caller_kwargs = Inr display_field"
    by (simp add: DisplayField_init_def Field_base_init_def caller_kwargs_def display_field_def)
  have named: "\<forall>g. (''_display'', g) \<in> set example_fields \<longrightarrow> g = display_field"
    by (simp add: example_fields_def)
  have seven: "str_nat 7 = ''7''"
    by code_simp
  have s: "example_str 7 = Inr ''Widget #7''"
    by (simp add: example_str_def seven)
  have k: "caller_kwargs ''read_only'' = Some (JBool False)"
    by (simp add: caller_kwargs_def)
  have d: "deserialize example_fields example_input = [(''name'', JStr ''Widget'')]"
    by (simp add: example_fields_def example_input_def name_field_def display_field_def)
  from display_field_read_only
      [where args = "[]" and kwargs = caller_kwargs and f = display_field and n = "''_display''"
        and flds = example_fields and str_of = example_str and v = 7
        and data = example_input and w = "JStr ''again''", OF built named]
    built s k d
  show ?thesis by simp
qed

subsection \<open>C7: failures of the collaborators\<close>

text \<open>
  Claim C7: when URL resolution fails in \<open>get_links\<close>, in
  \<open>LinksField.to_representation\<close> or in \<open>RelatedSummaryField.to_representation\<close>, or
  when decoding the GeoJSON text fails in \<open>MultipleGeometryField.to_representation\<close>,
  the function fails with that same exception: nothing is caught, retried or replaced by
  a default.
\<close>

theorem collaborator_errors_propagate:
  "(reverse view_name kwargs request = Inl e1 \<longrightarrow>
      get_links reverse view_name kwargs request = Inl e1) \<and>
   (get_url v view_name' (case ctx ''request'' of None \<Rightarrow> None | Some r \<Rightarrow> r) None = Inl e2 \<longrightarrow>
      LinksField_to_representation get_url view_name' ctx v = Inl e2) \<and>
   (count m = Inr c \<and> ctx' ''request'' = Some request' \<and>
    reverse' (lower (model_name m) @ ''-list'') None request' = Inl e3 \<longrightarrow>
      RelatedSummaryField_to_representation lower reverse' ctx' m = Inl e3) \<and>
   (truthy g \<and> loads (geojson g) = Inl e4 \<longrightarrow>
      MultipleGeometryField_to_representation loads (Some g) = Inl e4)"
  by (simp add: get_links_def LinksField_to_representation_def
      RelatedSummaryField_to_representation_def MultipleGeometryField_to_representation_def
      truth_value_def)

text \<open>An unknown route in the three link rules and an undecodable text in the geometry rule.\<close>

theorem collaborator_errors_propagate_witness:
  "example_reverse ''no-such-view'' None None = Inl NoReverseMatch \<and>
   (get_links example_reverse ''no-such-view'' None None :: exc + unit rendered)
     = Inl NoReverseMatch \<and>
   example_get_url 5 ''no-such-view'' (Some ()) None = Inl NoReverseMatch \<and>
   LinksField_to_representation example_get_url ''no-such-view'' example_context 5
     = Inl NoReverseMatch \<and>
   count failing_manager = Inr 2 \<and>
   example_reverse (example_lower (model_name failing_manager) @ ''-list'') None (Some ())
     = Inl NoReverseMatch \<and>
   (RelatedSummaryField_to_representation example_lower example_reverse example_context failing_manager
      :: exc + unit rendered) = Inl NoReverseMatch \<and>
   truthy point_geometry \<and>
   failing_loads (geojson point_geometry) = Inl JSONDecodeError \<and>
   MultipleGeometryField_to_representation failing_loads (Some point_geometry)
     = Inl JSONDecodeError"
proof -
  have r: "example_reverse ''no-such-view'' None None = Inl NoReverseMatch"
    by (simp add: example_reverse_def)
  have c: "example_context ''request'' = Some (Some ())"
    by (simp add: example_context_def)
  have g: "example_get_url 5 ''no-such-view''
             (case example_context ''request'' of None \<Rightarrow> None | Some r \<Rightarrow> r) None
           = Inl NoReverseMatch"
    by (simp add: example_get_url_def)
  have n: "count failing_manager = Inr 2"
    by (simp add: failing_manager_def)
  have o: "example_reverse (example_lower (model_name failing_manager) @ ''-list'') None (Some ())
             = Inl NoReverseMatch"
    by (simp add: failing_manager_def example_lower_Orphan example_reverse_def)
  have t: "truthy point_geometry"
    by (simp add: point_geometry_def)
  have l: "failing_loads (geojson point_geometry) = Inl JSONDecodeError"
    by (simp add: failing_loads_def)
  from collaborator_errors_propagate
      [where reverse = example_reverse and view_name = "''no-such-view''" and kwargs = None
        and request = None and ?e1.0 = NoReverseMatch
        and get_url = example_get_url and v = 5 and view_name' = "''no-such-view''"
        and ctx = example_context and ?e2.0 = NoReverseMatch
        and m = failing_manager and c = 2 and ctx' = example_context and request' = "Some ()"
        and lower = example_lower and reverse' = example_reverse and ?e3.0 = NoReverseMatch
        and g = point_geometry and loads = failing_loads and ?e4.0 = JSONDecodeError]
    r c g n o t l
  show ?thesis by simp
qed

subsection \<open>C8: what the rules write\<close>




subsection \<open>C9: presence of a geometry is truthiness\<close>

text \<open>
  Claim C9: \<open>MultipleGeometryField.to_representation\<close> tests the truth value of the
  geometry, not whether it is \<open>None\<close>: for every falsy value, a geometry object
  included, the result is the empty string whatever the decoder would do, and for every
  truthy value the result is the decoder's answer on the geometry's GeoJSON text.
\<close>

theorem geometry_presence_is_truthiness:
  "(\<not> truth_value v \<longrightarrow>
      MultipleGeometryField_to_representation loads v = Inr (JStr '''')) \<and>
   (truth_value v' \<longrightarrow>
      (\<exists>g. v' = Some g \<and>
           MultipleGeometryField_to_representation loads' v' = loads' (geojson g)))"
  by (auto simp add: MultipleGeometryField_to_representation_def truth_value_def
      split: option.splits)

text \<open>
  With a decoder that always fails, the empty multipolygon still gives the empty string
  (the decoder is not called), and the point gives the decoder's failure.
\<close>

theorem geometry_presence_is_truthiness_witness:
  "\<not> truth_value (Some empty_multipolygon) \<and>
   MultipleGeometryField_to_representation failing_loads (Some empty_multipolygon)
     = Inr (JStr '''') \<and>
   truth_value (Some point_geometry) \<and>
   MultipleGeometryField_to_representation failing_loads (Some point_geometry)
     = Inl JSONDecodeError"
proof -
  have f: "\<not> truth_value (Some empty_multipolygon)"
    by (simp add: truth_value_def empty_multipolygon_def)
  have t: "truth_value (Some point_geometry)"
    by (simp add: truth_value_def point_geometry_def)
  from geometry_presence_is_truthiness
      [of "Some empty_multipolygon" failing_loads "Some point_geometry" failing_loads] f t
  show ?thesis by (simp add: failing_loads_def)
qed

subsection \<open>C10: the constructor of the display field\<close>

text \<open>
  Claim C10: \<open>DisplayField.__init__\<close> hands the base constructor the caller's keyword
  arguments with \<open>source\<close> set to \<open>'*'\<close> and \<open>read_only\<close> set to \<open>True\<close>,
  whatever the caller supplied for them, and all other keyword arguments as they were;
  so with a base constructor that keeps these two arguments, every constructed field has
  \<open>source = '*'\<close> and \<open>read_only = True\<close>.
\<close>

theorem display_field_init_overrides:
  "(\<exists>kw. DisplayField_init Field_init args kwargs = Field_init args kw \<and>
         kw ''source'' = Some (JStr ''*'') \<and> kw ''read_only'' = Some (JBool True) \<and>
         (\<forall>k. k \<noteq> ''source'' \<and> k \<noteq> ''read_only'' \<longrightarrow> kw k = kwargs k)) \<and>
   ((\<forall>a k f. Field_init a k = Inr f \<longrightarrow>
        source_of f = k ''source'' \<and> read_only_of f = k ''read_only'') \<longrightarrow>
    (\<forall>f. DisplayField_init Field_init args kwargs = Inr f \<longrightarrow>
        source_of f = Some (JStr ''*'') \<and> read_only_of f = Some (JBool True)))"
proof (intro conjI impI allI)
  show "\<exists>kw. DisplayField_init Field_init args kwargs = Field_init args kw \<and>
         kw ''source'' = Some (JStr ''*'') \<and> kw ''read_only'' = Some (JBool True) \<and>
         (\<forall>k. k \<noteq> ''source'' \<and> k \<noteq> ''read_only'' \<longrightarrow> kw k = kwargs k)"
    by (rule exI [of _ "kwargs(''source'' \<mapsto> JStr ''*'', ''read_only'' \<mapsto> JBool True)"])
      (simp add: DisplayField_init_def)
next
  fix f
  assume stores: "\<forall>a k f. Field_init a k = Inr f \<longrightarrow>
                    source_of f = k ''source'' \<and> read_only_of f = k ''read_only''"
    and built: "DisplayField_init Field_init args kwargs = Inr f"
  from built
  have "Field_init args (kwargs(''source'' \<mapsto> JStr ''*'', ''read_only'' \<mapsto> JBool True)) = Inr f"
    by (simp add: DisplayField_init_def)
  with stores
  have "source_of f = (kwargs(''source'' \<mapsto> JStr ''*'', ''read_only'' \<mapsto> JBool True)) ''source'' \<and>
        read_only_of f =
          (kwargs(''source'' \<mapsto> JStr ''*'', ''read_only'' \<mapsto> JBool True)) ''read_only''"
    by blast
  then show "source_of f = Some (JStr ''*'')" and "read_only_of f = Some (JBool True)"
    by simp_all
qed

text \<open>
  A caller passing \<open>source='name'\<close> and \<open>read_only=False\<close> gets a field with
  \<open>source='*'\<close> and \<open>read_only=True\<close>.
\<close>

theorem display_field_init_overrides_witness:
  "caller_kwargs ''source'' = Some (JStr ''name'') \<and>
   caller_kwargs ''read_only'' = Some (JBool False) \<and>
   DisplayField_init example_Field_init [] caller_kwargs = Inr (Some (JStr ''*''), Some (JBool True))"
proof -
  have stores: "\<forall>a k f. example_Field_init a k = Inr f \<longrightarrow>
                  fst f = k ''source'' \<and> snd f = k ''read_only''"
    by (auto simp add: example_Field_init_def split: if_splits)
  have built: "DisplayField_init example_Field_init [] caller_kwargs =
                 Inr (Some (JStr ''*''), Some (JBool True))"
    by (simp add: DisplayField_init_def example_Field_init_def caller_kwargs_def)
  from display_field_init_overrides
      [of example_Field_init "[]" caller_kwargs fst snd] stores built
  show ?thesis by (simp add: caller_kwargs_def)
qed

end
